theory Spec2Isabelle
  imports Main "HOL-Library.Multiset"
begin

section \<open>Annotation API router: \<open>register_annotation_apis.ts\<close>\<close>

subsection \<open>Requests, thrown errors and responses\<close>

text \<open>
  The wrapper reads three parts of the incoming request and hands them, as one object
  \<open>{ body, query, params }\<close>, to the route's io-ts type. The parts are of type
  \<open>unknown\<close> in the source; \<open>'v\<close> stands for whatever value they carry.
\<close>

record 'v request =
  body :: 'v
  query :: 'v
  params :: 'v

text \<open>
  What a handler throws. The \<open>catch\<close> block reads \<open>error.output?.statusCode\<close> and
  \<open>error.output?.payload?.message\<close>: the thrown value is an object whose
  \<open>output\<close> (the field \<open>output'\<close> here, the plain name being reserved),
  \<open>statusCode\<close>, \<open>payload\<close> and \<open>message\<close> may each be missing. \<open>None\<close> is
  JavaScript's \<open>undefined\<close> or \<open>null\<close>, the two values that \<open>?.\<close> and \<open>??\<close> treat
  as absent. Status codes are integers, as HTTP has them. The thrown value itself is an
  object: on a thrown \<open>undefined\<close> or \<open>null\<close> the read of \<open>error.output\<close> would throw
  in its turn, and such a value is not an error in the sense of this type.
\<close>

record error_payload =
  message :: "string option"

record error_output =
  statusCode :: "int option"
  payload :: "error_payload option"

record thrown =
  output' :: "error_output option"

text \<open>The optional chaining \<open>a?.f\<close> and the nullish coalescing \<open>a ?? d\<close> of the source.\<close>

definition opt_chain :: "'a option \<Rightarrow> ('a \<Rightarrow> 'b option) \<Rightarrow> 'b option" where
  "opt_chain a f = (case a of None \<Rightarrow> None | Some x \<Rightarrow> f x)"

definition nullish_or :: "'a option \<Rightarrow> 'a \<Rightarrow> 'a" where
  "nullish_or a d = (case a of None \<Rightarrow> d | Some x \<Rightarrow> x)"

text \<open>
  The three bodies the wrapper hands to the response factory: a bare string (decode
  failure), the object \<open>{ message }\<close> (handler exception) and the handler's own result.
  What of them reaches the wire is the host's step, given further down.
\<close>

datatype 'r content = Text string | MessageEnvelope string | Result 'r

record 'r response =
  status :: int
  content :: "'r content"

text \<open>
  Modelled from the spec: the response factory of the host router (\<open>response.badRequest\<close>,
  \<open>response.ok\<close>, \<open>response.custom\<close>), which this module only calls. The spec has the
  decode failure answered "with a 400", the success wrapped "in a 200" and the exception
  mapped to the embedded status code; the response carries the body the wrapper passes.
\<close>

definition badRequest :: "'r content \<Rightarrow> 'r response" where
  "badRequest b = \<lparr>status = 400, content = b\<rparr>"

definition ok :: "'r content \<Rightarrow> 'r response" where
  "ok b = \<lparr>status = 200, content = b\<rparr>"

definition custom :: "int \<Rightarrow> 'r content \<Rightarrow> 'r response" where
  "custom code b = \<lparr>status = code, content = b\<rparr>"

text \<open>\<open>Array.prototype.join\<close> on an array of strings.\<close>

fun join :: "string list \<Rightarrow> string \<Rightarrow> string" where
  "join [] sep = []"
| "join [x] sep = x"
| "join (x # y # ys) sep = x @ sep @ join (y # ys) sep"

subsection \<open>Server state and the wrapper\<close>

datatype log_level = error_level | debug_level

text \<open>
  The state a request runs against: \<open>world\<close> is everything the annotations client
  reaches (the Elasticsearch index above all), \<open>logged\<close> the calls the wrapper has made
  on \<open>logger\<close>, oldest first, and \<open>handlerCalls\<close> counts the invocations of wrapped
  handlers.
\<close>

record 'w server =
  world :: 'w
  logged :: "(log_level \<times> string) list"
  handlerCalls :: nat

text \<open>
  The request handler context: \<open>(await context.core).elasticsearch.client.asCurrentUser\<close>
  and \<open>(await context.licensing)?.license\<close>, the latter possibly absent.
\<close>

record ('es, 'lic) handler_context =
  asCurrentUser :: 'es
  license :: "'lic option"

text \<open>
  What \<open>registerAnnotationAPIs\<close> closes over: its \<open>index\<close> argument, and the two
  imported functions \<open>formatErrors\<close> and \<open>createAnnotationsClient\<close>, which belong to
  other modules and are therefore parameters.
\<close>

record ('e, 'es, 'lic, 'c) deps =
  index :: string
  formatErrors :: "'e \<Rightarrow> string list"
  createAnnotationsClient :: "string \<Rightarrow> 'es \<Rightarrow> 'lic option \<Rightarrow> 'c"

type_synonym ('w, 'r) outcome = "(thrown + 'r) \<times> 'w"

text \<open>
  \<open>wrapRouteHandler(types, handler)\<close>. The io-ts type is its \<open>decode\<close> function, with
  \<open>Inl\<close> for fp-ts's \<open>Left\<close>. The handler is an asynchronous function of the decoded
  data and the client; it acts on the world and either returns (\<open>Inr\<close>) or throws
  (\<open>Inl\<close>).
\<close>

definition wrapRouteHandler ::
  "('e, 'es, 'lic, 'c) deps \<Rightarrow> ('v request \<Rightarrow> 'e + 'd) \<Rightarrow> ('d \<Rightarrow> 'c \<Rightarrow> 'w \<Rightarrow> ('w, 'r) outcome) \<Rightarrow>
   ('es, 'lic) handler_context \<Rightarrow> 'v request \<Rightarrow> 'w server \<Rightarrow> 'r response \<times> 'w server" where
  "wrapRouteHandler env types handler ctx req s =
     (let data = \<lparr>body = body req, query = query req, params = params req\<rparr> in
      case types data of
        Inl errors \<Rightarrow> (badRequest (Text (join (formatErrors env errors) ''|'')), s)
      | Inr right \<Rightarrow>
          let esClient = asCurrentUser ctx;
              lic = license ctx;
              client = createAnnotationsClient env (index env) esClient lic;
              (res, w) = handler right client (world s);
              s1 = s\<lparr>world := w, handlerCalls := Suc (handlerCalls s)\<rparr>
          in case res of
               Inr r \<Rightarrow> (ok (Result r), s1)
             | Inl error \<Rightarrow>
                 let code = nullish_or (opt_chain (output' error) statusCode) 500;
                     errorMessage =
                       nullish_or (opt_chain (opt_chain (output' error) payload) message)
                         ''An internal server error occurred''
                 in (custom code (MessageEnvelope errorMessage),
                     s1\<lparr>logged := logged s1 @
                          [(if code \<ge> 500 then error_level else debug_level, errorMessage)]\<rparr>))"

subsection \<open>The six routes\<close>

text \<open>
  The scoped annotations client: one method per route. Each acts on the world and
  returns or throws. (\<open>find\<close> and \<open>delete\<close> carry a suffix here.)
\<close>

record ('v, 'w, 'r) annotations_client =
  create :: "'v \<Rightarrow> 'w \<Rightarrow> ('w, 'r) outcome"
  update :: "'v \<Rightarrow> 'w \<Rightarrow> ('w, 'r) outcome"
  delete_annotation :: "'v \<Rightarrow> 'w \<Rightarrow> ('w, 'r) outcome"
  getById :: "'v \<Rightarrow> 'w \<Rightarrow> ('w, 'r) outcome"
  find_annotation :: "'v \<Rightarrow> 'w \<Rightarrow> ('w, 'r) outcome"
  permissions :: "'w \<Rightarrow> ('w, 'r) outcome"

datatype route =
  PostAnnotation | PutAnnotation | DeleteAnnotation | GetAnnotation | FindAnnotation
| GetPermissions

text \<open>The handler each route passes to \<open>wrapRouteHandler\<close>, in the order of the source.\<close>

fun routeHandler ::
  "route \<Rightarrow> 'v request \<Rightarrow> ('v, 'w, 'r) annotations_client \<Rightarrow> 'w \<Rightarrow> ('w, 'r) outcome" where
  "routeHandler PostAnnotation data client = create client (body data)"
| "routeHandler PutAnnotation data client = update client (body data)"
| "routeHandler DeleteAnnotation data client = delete_annotation client (params data)"
| "routeHandler GetAnnotation data client = getById client (params data)"
| "routeHandler FindAnnotation data client = find_annotation client (query data)"
| "routeHandler GetPermissions data client = permissions client"

text \<open>
  A registered route: the wrapper applied to the route's io-ts type and handler. The
  types (\<open>createAnnotationRt\<close> and the others) are imported and so are a parameter,
  \<open>rts\<close>, giving each route its decoder.
\<close>

definition annotationRoute ::
  "('e, 'es, 'lic, ('v, 'w, 'r) annotations_client) deps \<Rightarrow> (route \<Rightarrow> 'v request \<Rightarrow> 'e + 'v request) \<Rightarrow>
   route \<Rightarrow> ('es, 'lic) handler_context \<Rightarrow> 'v request \<Rightarrow> 'w server \<Rightarrow> 'r response \<times> 'w server" where
  "annotationRoute env rts rt = wrapRouteHandler env (rts rt) (routeHandler rt)"

subsection \<open>The body on the wire\<close>

text \<open>
  Modelled from the spec: the step of the host router that turns the response object into
  the body of the HTTP response, which this module does not contain. The spec's section on
  external interfaces has it so: "responses are JSON envelopes \<open>{ message }\<close> on error or
  the raw handler result on success". An error body given as a bare string becomes the
  message of the envelope, an object \<open>{ message }\<close> is the envelope already, and the
  result of a handler is sent as it is.
\<close>

datatype 'r http_body = Envelope string | Raw 'r

definition httpResponseBody :: "'r response \<Rightarrow> 'r http_body" where
  "httpResponseBody res =
     (case content res of
        Text m \<Rightarrow> Envelope m
      | MessageEnvelope m \<Rightarrow> Envelope m
      | Result r \<Rightarrow> Raw r)"

section \<open>Entity list filters: \<open>useEntitiesListFilters\<close>\<close>

text \<open>
  The fragments of Elasticsearch query DSL that the hook builds: \<open>{ term: { f: v } }\<close>,
  \<open>{ terms: { f: vs } }\<close>, \<open>{ wildcard: { f: p } }\<close>, \<open>{ bool: { should } }\<close> and
  \<open>{ bool: { must_not } }\<close>. The global filter query is a query container of any form;
  \<open>OtherQuery\<close> stands for the forms the hook itself never builds.
\<close>

datatype query =
  Term string string
| Terms string "string list"
| Wildcard string string
| BoolShould "query list"
| BoolMustNot "query list"
| OtherQuery string

text \<open>
  \<open>EntitySourceTag\<close>: the hook tells \<open>risk\<close> and \<open>criticality\<close> from every other
  tag of the enumeration.
\<close>

datatype EntitySourceTag = risk | criticality | other_tag string

text \<open>
  The imported constants, which belong to other modules and are therefore parameters:
  the table \<open>EntityTypeToLevelField\<close>, the field \<open>RiskScoreFields.unsupported\<close> and the
  two index patterns.
\<close>

record 'ty constants =
  EntityTypeToLevelField :: "'ty \<Rightarrow> string"
  unsupported :: string
  ASSET_CRITICALITY_INDEX_PATTERN :: string
  RISK_SCORE_INDEX_PATTERN :: string

text \<open>
  The hook's argument. Severities and criticality levels are string enumerations, passed
  as arrays.
\<close>

record UseEntitiesListFiltersParams =
  selectedSeverities :: "string list"
  selectedCriticalities :: "string list"
  selectedSources :: "EntitySourceTag list"

definition getSourceTagFilterQuery :: "'ty constants \<Rightarrow> EntitySourceTag \<Rightarrow> query" where
  "getSourceTagFilterQuery k tag =
     (if tag = risk then Wildcard ''entity.source'' (RISK_SCORE_INDEX_PATTERN k)
      else if tag = criticality then Wildcard ''entity.source'' (ASSET_CRITICALITY_INDEX_PATTERN k)
      else BoolMustNot
             [Wildcard ''entity.source'' (ASSET_CRITICALITY_INDEX_PATTERN k),
              Wildcard ''entity.source'' (RISK_SCORE_INDEX_PATTERN k)])"

text \<open>The three local constants of the memoised function, in the order of the source.\<close>

definition criticalityFilter :: "UseEntitiesListFiltersParams \<Rightarrow> query list" where
  "criticalityFilter p =
     (if length (selectedCriticalities p) \<noteq> 0
      then [BoolShould (map (\<lambda>value. Term ''asset.criticality'' value) (selectedCriticalities p))]
      else [])"

definition sourceFilter :: "'ty constants \<Rightarrow> UseEntitiesListFiltersParams \<Rightarrow> query list" where
  "sourceFilter k p =
     (if length (selectedSources p) \<noteq> 0
      then [BoolShould (map (\<lambda>tag. getSourceTagFilterQuery k tag) (selectedSources p))]
      else [])"

definition severityFilter ::
  "'ty constants \<Rightarrow> 'ty list \<Rightarrow> UseEntitiesListFiltersParams \<Rightarrow> query list" where
  "severityFilter k enabledEntityTypes p =
     (if length (selectedSeverities p) \<noteq> 0
      then [BoolShould
              (map (\<lambda>type. Terms (EntityTypeToLevelField k type) (selectedSeverities p))
                 (filter (\<lambda>type. EntityTypeToLevelField k type \<noteq> unsupported k)
                    enabledEntityTypes))]
      else [])"

text \<open>
  The hook. \<open>enabledEntityTypes\<close> is what \<open>useEntityStoreTypes()\<close> returned and
  \<open>globalQuery\<close> the \<open>filterQuery\<close> of \<open>useGlobalFilterQuery()\<close>, \<open>None\<close> when it is
  undefined. \<open>useMemo\<close> returns what its function computes.
\<close>

definition useEntitiesListFilters ::
  "'ty constants \<Rightarrow> 'ty list \<Rightarrow> query option \<Rightarrow> UseEntitiesListFiltersParams \<Rightarrow> query list" where
  "useEntitiesListFilters k enabledEntityTypes globalQuery p =
     (let filterList =
            severityFilter k enabledEntityTypes p @ criticalityFilter p @ sourceFilter k p
      in case globalQuery of
           Some q \<Rightarrow> filterList @ [q]
         | None \<Rightarrow> filterList)"

text \<open>
  A query read up to the order of the elements of its arrays: every array becomes the
  multiset of its elements.
\<close>

datatype uquery =
  UTerm string string
| UTerms string "string multiset"
| UWildcard string string
| UShould "uquery multiset"
| UMustNot "uquery multiset"
| UOther string

fun unordered :: "query \<Rightarrow> uquery" where
  "unordered (Term f v) = UTerm f v"
| "unordered (Terms f vs) = UTerms f (mset vs)"
| "unordered (Wildcard f v) = UWildcard f v"
| "unordered (BoolShould qs) = UShould (mset (map unordered qs))"
| "unordered (BoolMustNot qs) = UMustNot (mset (map unordered qs))"
| "unordered (OtherQuery x) = UOther x"

definition isShouldGroup :: "query \<Rightarrow> bool" where
  "isShouldGroup q = (case q of BoolShould _ \<Rightarrow> True | _ \<Rightarrow> False)"

section \<open>Index threshold expression editor: \<open>expression.tsx\<close>\<close>

text \<open>
  The rule parameters the component destructures. Each may be undefined (the component
  guards them with \<open>??\<close>), so each is an option; \<open>index\<close> is a string or an array of
  strings. The comparator type belongs to an imported package and is the parameter
  \<open>'cmp\<close>. Numbers are the integers the editor's controls produce. The object may
  carry further properties, which the spread \<open>...ruleParams\<close> copies along: they are
  the extension \<open>'z\<close> of the record.
\<close>

datatype index_param = IndexString string | IndexArray "string list"

record 'cmp IndexThresholdRuleParams =
  index :: "index_param option"
  timeField :: "string option"
  aggType :: "string option"
  aggField :: "string option"
  groupBy :: "string option"
  termSize :: "int option"
  termField :: "string option"
  thresholdComparator :: "'cmp option"
  threshold :: "int list option"
  timeWindowSize :: "int option"
  timeWindowUnit :: "string option"
  filterKuery :: "string option"

record 'cmp default_values =
  AGGREGATION_TYPE :: string
  TERM_SIZE :: int
  THRESHOLD_COMPARATOR :: 'cmp
  TIME_WINDOW_SIZE :: int
  TIME_WINDOW_UNIT :: string
  THRESHOLD :: "int list"
  GROUP_BY :: string

text \<open>\<open>DEFAULT_VALUES\<close>, given the imported constant \<open>COMPARATORS.GREATER_THAN\<close>.\<close>

definition DEFAULT_VALUES :: "'cmp \<Rightarrow> 'cmp default_values" where
  "DEFAULT_VALUES GREATER_THAN =
     \<lparr>AGGREGATION_TYPE = ''count'',
      TERM_SIZE = 5,
      THRESHOLD_COMPARATOR = GREATER_THAN,
      TIME_WINDOW_SIZE = 5,
      TIME_WINDOW_UNIT = ''m'',
      THRESHOLD = [1000],
      GROUP_BY = ''all''\<rparr>"

record EsField =
  name :: string
  type :: string
  normalizedType :: string
  searchable :: bool
  aggregatable :: bool

text \<open>
  The component between two events: \<open>ruleParams\<close> is the prop of that name (the
  parameters the host holds), \<open>esFields\<close> the \<open>useState\<close> cell, undefined at first, and
  \<open>fieldLookups\<close> the calls made to \<open>getFields\<close> so far, each with its indices, oldest
  first.
\<close>

record ('cmp, 'z) editor =
  ruleParams :: "('cmp, 'z) IndexThresholdRuleParams_scheme"
  esFields :: "EsField list option"
  fieldLookups :: "string list list"

text \<open>
  Modelled from the spec: the host's callbacks \<open>setRuleParams\<close> and \<open>setRuleProperty\<close>
  are props that the component only calls; the spec has them as "callbacks to mutate"
  the rule parameters. \<open>setRuleParams(key, value)\<close> sets one parameter (here the key
  \<open>'index'\<close>, the only one \<open>onIndexChange\<close> passes) and
  \<open>setRuleProperty('params', value)\<close> replaces the parameters as a whole.
\<close>

definition setRuleParams_index :: "string list \<Rightarrow> ('cmp, 'z) editor \<Rightarrow> ('cmp, 'z) editor" where
  "setRuleParams_index indices s =
     s\<lparr>ruleParams := (ruleParams s)\<lparr>index := Some (IndexArray indices)\<rparr>\<rparr>"

definition setRuleProperty_params ::
  "('cmp, 'z) IndexThresholdRuleParams_scheme \<Rightarrow> ('cmp, 'z) editor \<Rightarrow> ('cmp, 'z) editor" where
  "setRuleProperty_params value s = s\<lparr>ruleParams := value\<rparr>"

text \<open>
  \<open>refreshEsFields\<close>. The imported \<open>getFields(http, indices)\<close> is a parameter: it
  answers with the fields or, \<open>None\<close>, rejects, and then \<open>setEsFields\<close> is not reached.
  The callback is run to its end without another event in between.
\<close>

definition refreshEsFields ::
  "(string list \<Rightarrow> EsField list option) \<Rightarrow> string list \<Rightarrow> ('cmp, 'z) editor \<Rightarrow>
   ('cmp, 'z) editor" where
  "refreshEsFields getFields indices s =
     (let s1 = s\<lparr>fieldLookups := fieldLookups s @ [indices]\<rparr> in
      case getFields indices of
        None \<Rightarrow> s1
      | Some currentEsFields \<Rightarrow> s1\<lparr>esFields := Some currentEsFields\<rparr>)"

text \<open>
  The \<open>onIndexChange\<close> callback handed to \<open>IndexSelectPopover\<close>. The object it spreads,
  \<open>...ruleParams\<close>, is the prop of the render that created the callback, so the
  parameters as they were before \<open>setRuleParams\<close> ran.
\<close>

definition onIndexChange ::
  "'cmp \<Rightarrow> (string list \<Rightarrow> EsField list option) \<Rightarrow> string list \<Rightarrow> ('cmp, 'z) editor \<Rightarrow>
   ('cmp, 'z) editor" where
  "onIndexChange GREATER_THAN getFields indices s =
     (let props = ruleParams s;
          s1 = setRuleParams_index indices s
      in if length indices = 0 then
           setRuleProperty_params
             (props\<lparr>index := Some (IndexArray indices),
                    aggType := Some (AGGREGATION_TYPE (DEFAULT_VALUES GREATER_THAN)),
                    termSize := Some (TERM_SIZE (DEFAULT_VALUES GREATER_THAN)),
                    thresholdComparator := Some (THRESHOLD_COMPARATOR (DEFAULT_VALUES GREATER_THAN)),
                    timeWindowSize := Some (TIME_WINDOW_SIZE (DEFAULT_VALUES GREATER_THAN)),
                    timeWindowUnit := Some (TIME_WINDOW_UNIT (DEFAULT_VALUES GREATER_THAN)),
                    groupBy := Some (GROUP_BY (DEFAULT_VALUES GREATER_THAN)),
                    threshold := Some (THRESHOLD (DEFAULT_VALUES GREATER_THAN)),
                    timeField := Some ''''\<rparr>)
             s1
         else refreshEsFields getFields indices s1)"

section \<open>Properties of the annotation router\<close>

lemma request_eta:
  "\<lparr>body = body req, query = query req, params = params req\<rparr> = (req :: 'v request)"
  by simp

text \<open>
  C1. When the route's type fails to decode the request parts, the wrapper answers with
  status 400 and, as body, the formatted validation errors joined with \<open>|\<close>. The state is
  returned as it was given, whatever the handler is: the handler has not been invoked
  (\<open>handlerCalls\<close> is unchanged) and no annotations client has acted on the world.
\<close>

theorem decode_failure_bad_request:
  assumes "types req = Inl errors"
  shows "wrapRouteHandler env types handler ctx req s =
           (\<lparr>status = 400, content = Text (join (formatErrors env errors) ''|'')\<rparr>, s)"
  using assms by (simp add: wrapRouteHandler_def badRequest_def request_eta)

theorem decode_failure_bad_request_witness:
  "wrapRouteHandler
     \<lparr>deps.index = ''observability-annotations'', formatErrors = (\<lambda>e. e),
      createAnnotationsClient = (\<lambda>i es l. ())\<rparr>
     (\<lambda>d. if body d = '''' then Inl [''body: required'', ''body.type: invalid''] else Inr d)
     (\<lambda>d c w. (Inr d, Suc w))
     \<lparr>asCurrentUser = (), license = None :: unit option\<rparr>
     \<lparr>body = '''', query = '''', params = ''''\<rparr>
     \<lparr>world = 0::nat, logged = [], handlerCalls = 0\<rparr>
   = (\<lparr>status = 400, content = Text ''body: required|body.type: invalid''\<rparr>,
      \<lparr>world = 0, logged = [], handlerCalls = 0\<rparr>)"
  using decode_failure_bad_request
    [where types = "\<lambda>d. if body d = '''' then Inl [''body: required'', ''body.type: invalid'']
                        else Inr d"
       and req = "\<lparr>body = '''', query = '''', params = ''''\<rparr>"
       and errors = "[''body: required'', ''body.type: invalid'']"
       and env = "\<lparr>deps.index = ''observability-annotations'', formatErrors = (\<lambda>e. e),
                  createAnnotationsClient = (\<lambda>i es l. ())\<rparr>"
       and handler = "\<lambda>d c w. (Inr d, Suc w)"
       and ctx = "\<lparr>asCurrentUser = (), license = None :: unit option\<rparr>"
       and s = "\<lparr>world = 0::nat, logged = [], handlerCalls = 0\<rparr>"]
  by simp

text \<open>
  C2, as the spec has it, fails: an error that carries \<open>output.statusCode = 404\<close> and no
  \<open>output.payload\<close> is answered with status 404, but the message of the body is the generic
  text, not a message of that error.
\<close>

theorem not_found_without_message_counterexample:
  "fst (wrapRouteHandler
     \<lparr>deps.index = ''observability-annotations'', formatErrors = (\<lambda>e::string. [e]),
          createAnnotationsClient = (\<lambda>i es l. ())\<rparr>
     (\<lambda>d. Inr (params d) :: string + string)
     (\<lambda>d c w. (Inl \<lparr>output' = Some \<lparr>statusCode = Some 404, payload = None\<rparr>\<rparr>, w))
     \<lparr>asCurrentUser = (), license = None :: unit option\<rparr>
     \<lparr>body = '''', query = '''', params = ''id-1''\<rparr>
     \<lparr>world = 0::nat, logged = [], handlerCalls = 0\<rparr>)
   = (\<lparr>status = 404, content = MessageEnvelope ''An internal server error occurred''\<rparr>
        :: unit response)"
  by (simp add: wrapRouteHandler_def custom_def opt_chain_def nullish_or_def Let_def)

text \<open>
  C2, amended. When the handler throws an error whose \<open>output.statusCode\<close> is 404, the
  response has status 404 and the body \<open>{ message }\<close>, where the message is the error's
  \<open>output.payload.message\<close> when that is present and the generic text
  "An internal server error occurred" otherwise.
\<close>

theorem not_found_status_and_message:
  assumes "types req = Inr d"
    and "handler d (createAnnotationsClient env (deps.index env) (asCurrentUser ctx) (license ctx))
           (world s) = (Inl error, w)"
    and "output' error = Some out"
    and "statusCode out = Some 404"
  shows "fst (wrapRouteHandler env types handler ctx req s) =
           \<lparr>status = 404,
            content = MessageEnvelope
              (case payload out of
                 None \<Rightarrow> ''An internal server error occurred''
               | Some pl \<Rightarrow>
                   (case message pl of
                      None \<Rightarrow> ''An internal server error occurred''
                    | Some m \<Rightarrow> m))\<rparr>"
  using assms
  by (simp add: wrapRouteHandler_def custom_def opt_chain_def nullish_or_def Let_def request_eta
      split: option.splits)

theorem not_found_status_and_message_witness:
  "fst (wrapRouteHandler
     \<lparr>deps.index = ''observability-annotations'', formatErrors = (\<lambda>e::string. [e]),
          createAnnotationsClient = (\<lambda>i es l. ())\<rparr>
     (\<lambda>d. Inr (params d) :: string + string)
     (\<lambda>d c w. (Inl \<lparr>output' = Some \<lparr>statusCode = Some 404,
              payload = Some \<lparr>message = Some ''Annotation not found''\<rparr>\<rparr>\<rparr>, w))
     \<lparr>asCurrentUser = (), license = None :: unit option\<rparr>
     \<lparr>body = '''', query = '''', params = ''id-1''\<rparr>
     \<lparr>world = 0::nat, logged = [], handlerCalls = 0\<rparr>)
   = (\<lparr>status = 404, content = MessageEnvelope ''Annotation not found''\<rparr> :: unit response)"
  using not_found_status_and_message
    [where types = "\<lambda>d. Inr (params d) :: string + string"
       and req = "\<lparr>body = '''', query = '''', params = ''id-1''\<rparr>"
       and d = "''id-1''"
       and env = "\<lparr>deps.index = ''observability-annotations'', formatErrors = (\<lambda>e::string. [e]),
          createAnnotationsClient = (\<lambda>i es l. ())\<rparr>"
       and handler = "\<lambda>d c w. (Inl \<lparr>output' = Some \<lparr>statusCode = Some 404,
              payload = Some \<lparr>message = Some ''Annotation not found''\<rparr>\<rparr>\<rparr>, w)"
       and ctx = "\<lparr>asCurrentUser = (), license = None :: unit option\<rparr>"
       and s = "\<lparr>world = 0::nat, logged = [], handlerCalls = 0\<rparr>"
       and error = "\<lparr>output' = Some \<lparr>statusCode = Some 404,
              payload = Some \<lparr>message = Some ''Annotation not found''\<rparr>\<rparr>\<rparr>"
       and out = "\<lparr>statusCode = Some 404,
              payload = Some \<lparr>message = Some ''Annotation not found''\<rparr>\<rparr>"
       and w = 0]
  by simp

text \<open>
  C3. When the handler throws, the status of the response is the error's
  \<open>output.statusCode\<close> when that is present and 500 otherwise, and the message of the body
  is the error's \<open>output.payload.message\<close> when that is present and
  "An internal server error occurred" otherwise.
\<close>

theorem handler_error_status_and_message:
  assumes "types req = Inr d"
    and "handler d (createAnnotationsClient env (deps.index env) (asCurrentUser ctx) (license ctx))
           (world s) = (Inl error, w)"
  shows "fst (wrapRouteHandler env types handler ctx req s) =
           \<lparr>status =
              (case output' error of
                 None \<Rightarrow> 500
               | Some out \<Rightarrow> (case statusCode out of None \<Rightarrow> 500 | Some code \<Rightarrow> code)),
            content = MessageEnvelope
              (case output' error of
                 None \<Rightarrow> ''An internal server error occurred''
               | Some out \<Rightarrow>
                   (case payload out of
                      None \<Rightarrow> ''An internal server error occurred''
                    | Some pl \<Rightarrow>
                        (case message pl of
                           None \<Rightarrow> ''An internal server error occurred''
                         | Some m \<Rightarrow> m)))\<rparr>"
  using assms
  by (simp add: wrapRouteHandler_def custom_def opt_chain_def nullish_or_def Let_def request_eta
      split: option.splits)

theorem handler_error_status_and_message_witness:
  "fst (wrapRouteHandler
     \<lparr>deps.index = ''observability-annotations'', formatErrors = (\<lambda>e::string. [e]),
          createAnnotationsClient = (\<lambda>i es l. ())\<rparr>
     (\<lambda>d. Inr (body d) :: string + string)
     (\<lambda>d c w. (Inl \<lparr>output' = Some \<lparr>statusCode = Some 403,
              payload = Some \<lparr>message = Some ''Forbidden''\<rparr>\<rparr>\<rparr>, w))
     \<lparr>asCurrentUser = (), license = None :: unit option\<rparr>
     \<lparr>body = ''a'', query = '''', params = ''''\<rparr>
     \<lparr>world = 0::nat, logged = [], handlerCalls = 0\<rparr>)
   = (\<lparr>status = 403, content = MessageEnvelope ''Forbidden''\<rparr> :: unit response)"
  using handler_error_status_and_message
    [where types = "\<lambda>d. Inr (body d) :: string + string"
       and req = "\<lparr>body = ''a'', query = '''', params = ''''\<rparr>"
       and d = "''a''"
       and env = "\<lparr>deps.index = ''observability-annotations'', formatErrors = (\<lambda>e::string. [e]),
          createAnnotationsClient = (\<lambda>i es l. ())\<rparr>"
       and handler = "\<lambda>d c w. (Inl \<lparr>output' = Some \<lparr>statusCode = Some 403,
              payload = Some \<lparr>message = Some ''Forbidden''\<rparr>\<rparr>\<rparr>, w)"
       and ctx = "\<lparr>asCurrentUser = (), license = None :: unit option\<rparr>"
       and s = "\<lparr>world = 0::nat, logged = [], handlerCalls = 0\<rparr>"
       and error = "\<lparr>output' = Some \<lparr>statusCode = Some 403,
              payload = Some \<lparr>message = Some ''Forbidden''\<rparr>\<rparr>\<rparr>"
       and w = 0]
  by simp

text \<open>
  C6. For every annotation route, the body of the HTTP response is an envelope
  \<open>{ message }\<close> when the response is an error, be it a decode failure (the message is
  then the joined validation errors) or an exception of the handler, and it is exactly the
  handler's return value, with status 200, on success.
\<close>

theorem route_http_response_body:
  fixes env :: "('e, 'es, 'lic, ('v, 'w, 'r) annotations_client) deps"
  shows
  "(rts rt req = Inl errors \<longrightarrow>
      httpResponseBody (fst (annotationRoute env rts rt ctx req s)) =
        Envelope (join (formatErrors env errors) ''|'')) \<and>
   (rts rt req = Inr d \<and>
    routeHandler rt d (createAnnotationsClient env (deps.index env) (asCurrentUser ctx) (license ctx))
      (world s) = (Inl error, w) \<longrightarrow>
      (\<exists>msg. httpResponseBody (fst (annotationRoute env rts rt ctx req s)) = Envelope msg)) \<and>
   (rts rt req = Inr d \<and>
    routeHandler rt d (createAnnotationsClient env (deps.index env) (asCurrentUser ctx) (license ctx))
      (world s) = (Inr r, w) \<longrightarrow>
      status (fst (annotationRoute env rts rt ctx req s)) = 200 \<and>
      httpResponseBody (fst (annotationRoute env rts rt ctx req s)) = Raw r)"
  by (simp add: annotationRoute_def wrapRouteHandler_def badRequest_def ok_def custom_def Let_def
      request_eta httpResponseBody_def)

theorem route_http_response_body_witness:
  "httpResponseBody (fst (annotationRoute
     \<lparr>deps.index = ''observability-annotations'', formatErrors = (\<lambda>e::string list. e),
          createAnnotationsClient = (\<lambda>i es l.
            \<lparr>create = (\<lambda>v w. (Inr v, Suc w)), update = (\<lambda>v w. (Inr v, Suc w)),
              delete_annotation = (\<lambda>v w. (Inr v, Suc w)),
              getById = (\<lambda>v w. (Inl \<lparr>output' = Some \<lparr>statusCode = Some 404,
                 payload = Some \<lparr>message = Some ''Annotation not found''\<rparr>\<rparr>\<rparr>, w)),
              find_annotation = (\<lambda>v w. (Inr v, w)),
              permissions = (\<lambda>w. (Inr ''read'', w))\<rparr>)\<rparr>
     (\<lambda>rt d. if body d = '''' \<and> rt = PostAnnotation
                 then Inl [''body: required'', ''body.type: invalid''] else Inr d)
     PostAnnotation
     \<lparr>asCurrentUser = (), license = None :: unit option\<rparr>
     \<lparr>body = '''', query = '''', params = ''''\<rparr>
     \<lparr>world = 0::nat, logged = [], handlerCalls = 0\<rparr>))
   = Envelope ''body: required|body.type: invalid'' \<and>
   (\<exists>msg. httpResponseBody (fst (annotationRoute
     \<lparr>deps.index = ''observability-annotations'', formatErrors = (\<lambda>e::string list. e),
          createAnnotationsClient = (\<lambda>i es l.
            \<lparr>create = (\<lambda>v w. (Inr v, Suc w)), update = (\<lambda>v w. (Inr v, Suc w)),
              delete_annotation = (\<lambda>v w. (Inr v, Suc w)),
              getById = (\<lambda>v w. (Inl \<lparr>output' = Some \<lparr>statusCode = Some 404,
                 payload = Some \<lparr>message = Some ''Annotation not found''\<rparr>\<rparr>\<rparr>, w)),
              find_annotation = (\<lambda>v w. (Inr v, w)),
              permissions = (\<lambda>w. (Inr ''read'', w))\<rparr>)\<rparr>
     (\<lambda>rt d. if body d = '''' \<and> rt = PostAnnotation
                 then Inl [''body: required'', ''body.type: invalid''] else Inr d)
     GetAnnotation
     \<lparr>asCurrentUser = (), license = None :: unit option\<rparr>
     \<lparr>body = '''', query = '''', params = ''id-1''\<rparr>
     \<lparr>world = 0::nat, logged = [], handlerCalls = 0\<rparr>))
   = Envelope msg) \<and>
   status (fst (annotationRoute
     \<lparr>deps.index = ''observability-annotations'', formatErrors = (\<lambda>e::string list. e),
          createAnnotationsClient = (\<lambda>i es l.
            \<lparr>create = (\<lambda>v w. (Inr v, Suc w)), update = (\<lambda>v w. (Inr v, Suc w)),
              delete_annotation = (\<lambda>v w. (Inr v, Suc w)),
              getById = (\<lambda>v w. (Inl \<lparr>output' = Some \<lparr>statusCode = Some 404,
                 payload = Some \<lparr>message = Some ''Annotation not found''\<rparr>\<rparr>\<rparr>, w)),
              find_annotation = (\<lambda>v w. (Inr v, w)),
              permissions = (\<lambda>w. (Inr ''read'', w))\<rparr>)\<rparr>
     (\<lambda>rt d. if body d = '''' \<and> rt = PostAnnotation
                 then Inl [''body: required'', ''body.type: invalid''] else Inr d)
     PutAnnotation
     \<lparr>asCurrentUser = (), license = None :: unit option\<rparr>
     \<lparr>body = ''note'', query = '''', params = ''id-1''\<rparr>
     \<lparr>world = 0::nat, logged = [], handlerCalls = 0\<rparr>))
   = 200 \<and>
   httpResponseBody (fst (annotationRoute
     \<lparr>deps.index = ''observability-annotations'', formatErrors = (\<lambda>e::string list. e),
          createAnnotationsClient = (\<lambda>i es l.
            \<lparr>create = (\<lambda>v w. (Inr v, Suc w)), update = (\<lambda>v w. (Inr v, Suc w)),
              delete_annotation = (\<lambda>v w. (Inr v, Suc w)),
              getById = (\<lambda>v w. (Inl \<lparr>output' = Some \<lparr>statusCode = Some 404,
                 payload = Some \<lparr>message = Some ''Annotation not found''\<rparr>\<rparr>\<rparr>, w)),
              find_annotation = (\<lambda>v w. (Inr v, w)),
              permissions = (\<lambda>w. (Inr ''read'', w))\<rparr>)\<rparr>
     (\<lambda>rt d. if body d = '''' \<and> rt = PostAnnotation
                 then Inl [''body: required'', ''body.type: invalid''] else Inr d)
     PutAnnotation
     \<lparr>asCurrentUser = (), license = None :: unit option\<rparr>
     \<lparr>body = ''note'', query = '''', params = ''id-1''\<rparr>
     \<lparr>world = 0::nat, logged = [], handlerCalls = 0\<rparr>))
   = Raw ''note''"
  using route_http_response_body
    [where rts = "(\<lambda>rt d. if body d = '''' \<and> rt = PostAnnotation
                 then Inl [''body: required'', ''body.type: invalid''] else Inr d)"
       and rt = PostAnnotation
       and req = "\<lparr>body = '''', query = '''', params = ''''\<rparr>"
       and errors = "[''body: required'', ''body.type: invalid'']"
       and env = "\<lparr>deps.index = ''observability-annotations'', formatErrors = (\<lambda>e::string list. e),
          createAnnotationsClient = (\<lambda>i es l.
            \<lparr>create = (\<lambda>v w. (Inr v, Suc w)), update = (\<lambda>v w. (Inr v, Suc w)),
              delete_annotation = (\<lambda>v w. (Inr v, Suc w)),
              getById = (\<lambda>v w. (Inl \<lparr>output' = Some \<lparr>statusCode = Some 404,
                 payload = Some \<lparr>message = Some ''Annotation not found''\<rparr>\<rparr>\<rparr>, w)),
              find_annotation = (\<lambda>v w. (Inr v, w)),
              permissions = (\<lambda>w. (Inr ''read'', w))\<rparr>)\<rparr>"
       and ctx = "\<lparr>asCurrentUser = (), license = None :: unit option\<rparr>"
       and s = "\<lparr>world = 0::nat, logged = [], handlerCalls = 0\<rparr>"]
    route_http_response_body
    [where rts = "(\<lambda>rt d. if body d = '''' \<and> rt = PostAnnotation
                 then Inl [''body: required'', ''body.type: invalid''] else Inr d)"
       and rt = GetAnnotation
       and req = "\<lparr>body = '''', query = '''', params = ''id-1''\<rparr>"
       and d = "\<lparr>body = '''', query = '''', params = ''id-1''\<rparr>"
       and error = "\<lparr>output' = Some \<lparr>statusCode = Some 404,
              payload = Some \<lparr>message = Some ''Annotation not found''\<rparr>\<rparr>\<rparr>"
       and w = 0
       and env = "\<lparr>deps.index = ''observability-annotations'', formatErrors = (\<lambda>e::string list. e),
          createAnnotationsClient = (\<lambda>i es l.
            \<lparr>create = (\<lambda>v w. (Inr v, Suc w)), update = (\<lambda>v w. (Inr v, Suc w)),
              delete_annotation = (\<lambda>v w. (Inr v, Suc w)),
              getById = (\<lambda>v w. (Inl \<lparr>output' = Some \<lparr>statusCode = Some 404,
                 payload = Some \<lparr>message = Some ''Annotation not found''\<rparr>\<rparr>\<rparr>, w)),
              find_annotation = (\<lambda>v w. (Inr v, w)),
              permissions = (\<lambda>w. (Inr ''read'', w))\<rparr>)\<rparr>"
       and ctx = "\<lparr>asCurrentUser = (), license = None :: unit option\<rparr>"
       and s = "\<lparr>world = 0::nat, logged = [], handlerCalls = 0\<rparr>"]
    route_http_response_body
    [where rts = "(\<lambda>rt d. if body d = '''' \<and> rt = PostAnnotation
                 then Inl [''body: required'', ''body.type: invalid''] else Inr d)"
       and rt = PutAnnotation
       and req = "\<lparr>body = ''note'', query = '''', params = ''id-1''\<rparr>"
       and d = "\<lparr>body = ''note'', query = '''', params = ''id-1''\<rparr>"
       and r = "''note''"
       and w = 1
       and env = "\<lparr>deps.index = ''observability-annotations'', formatErrors = (\<lambda>e::string list. e),
          createAnnotationsClient = (\<lambda>i es l.
            \<lparr>create = (\<lambda>v w. (Inr v, Suc w)), update = (\<lambda>v w. (Inr v, Suc w)),
              delete_annotation = (\<lambda>v w. (Inr v, Suc w)),
              getById = (\<lambda>v w. (Inl \<lparr>output' = Some \<lparr>statusCode = Some 404,
                 payload = Some \<lparr>message = Some ''Annotation not found''\<rparr>\<rparr>\<rparr>, w)),
              find_annotation = (\<lambda>v w. (Inr v, w)),
              permissions = (\<lambda>w. (Inr ''read'', w))\<rparr>)\<rparr>"
       and ctx = "\<lparr>asCurrentUser = (), license = None :: unit option\<rparr>"
       and s = "\<lparr>world = 0::nat, logged = [], handlerCalls = 0\<rparr>"]
  by simp

text \<open>
  C7. When the handler throws, the wrapper makes exactly one call on the logger: the log
  grows by one entry. The entry carries the resolved error message (\<open>output.payload.message\<close>
  or the generic text) and is at error level if and only if the resolved status code
  (\<open>output.statusCode\<close> or 500) is at least 500, and at debug level otherwise.
\<close>

theorem handler_error_logged_once:
  assumes "types req = Inr d"
    and "handler d (createAnnotationsClient env (deps.index env) (asCurrentUser ctx) (license ctx))
           (world s) = (Inl error, w)"
  shows "logged (snd (wrapRouteHandler env types handler ctx req s)) =
           logged s @
             [(if 500 \<le> (case output' error of
                            None \<Rightarrow> 500
                          | Some out \<Rightarrow> (case statusCode out of None \<Rightarrow> 500 | Some code \<Rightarrow> code))
               then error_level else debug_level,
               case output' error of
                 None \<Rightarrow> ''An internal server error occurred''
               | Some out \<Rightarrow>
                   (case payload out of
                      None \<Rightarrow> ''An internal server error occurred''
                    | Some pl \<Rightarrow>
                        (case message pl of
                           None \<Rightarrow> ''An internal server error occurred''
                         | Some m \<Rightarrow> m)))]"
  using assms
  by (simp add: wrapRouteHandler_def custom_def opt_chain_def nullish_or_def Let_def request_eta
      split: option.splits)

theorem handler_error_logged_once_witness:
  "logged (snd (wrapRouteHandler
       \<lparr>deps.index = ''observability-annotations'', formatErrors = (\<lambda>e::string. [e]),
          createAnnotationsClient = (\<lambda>i es l. ())\<rparr>
       (\<lambda>d. Inr (body d) :: string + string)
       (\<lambda>d c w. (Inl \<lparr>output' = None\<rparr>, w))
       \<lparr>asCurrentUser = (), license = None :: unit option\<rparr>
       \<lparr>body = ''a'', query = '''', params = ''''\<rparr>
       \<lparr>world = 0::nat, logged = [], handlerCalls = 0\<rparr> :: unit response \<times> nat server)) =
     [(error_level, ''An internal server error occurred'')] \<and>
   logged (snd (wrapRouteHandler
       \<lparr>deps.index = ''observability-annotations'', formatErrors = (\<lambda>e::string. [e]),
          createAnnotationsClient = (\<lambda>i es l. ())\<rparr>
       (\<lambda>d. Inr (body d) :: string + string)
       (\<lambda>d c w. (Inl \<lparr>output' = Some \<lparr>statusCode = Some 404,
              payload = Some \<lparr>message = Some ''Annotation not found''\<rparr>\<rparr>\<rparr>, w))
       \<lparr>asCurrentUser = (), license = None :: unit option\<rparr>
       \<lparr>body = ''a'', query = '''', params = ''''\<rparr>
       \<lparr>world = 0::nat, logged = [], handlerCalls = 0\<rparr> :: unit response \<times> nat server)) =
     [(debug_level, ''Annotation not found'')]"
  using handler_error_logged_once
    [where types = "\<lambda>d. Inr (body d) :: string + string"
       and req = "\<lparr>body = ''a'', query = '''', params = ''''\<rparr>"
       and d = "''a''"
       and env = "\<lparr>deps.index = ''observability-annotations'', formatErrors = (\<lambda>e::string. [e]),
          createAnnotationsClient = (\<lambda>i es l. ())\<rparr>"
       and handler = "\<lambda>d c w. (Inl \<lparr>output' = None\<rparr>, w) :: (nat, unit) outcome"
       and ctx = "\<lparr>asCurrentUser = (), license = None :: unit option\<rparr>"
       and s = "\<lparr>world = 0::nat, logged = [], handlerCalls = 0\<rparr>"
       and error = "\<lparr>output' = None\<rparr>"
       and w = 0]
    handler_error_logged_once
    [where types = "\<lambda>d. Inr (body d) :: string + string"
       and req = "\<lparr>body = ''a'', query = '''', params = ''''\<rparr>"
       and d = "''a''"
       and env = "\<lparr>deps.index = ''observability-annotations'', formatErrors = (\<lambda>e::string. [e]),
          createAnnotationsClient = (\<lambda>i es l. ())\<rparr>"
       and handler = "\<lambda>d c w. (Inl \<lparr>output' = Some \<lparr>statusCode = Some 404,
              payload = Some \<lparr>message = Some ''Annotation not found''\<rparr>\<rparr>\<rparr>, w) :: (nat, unit) outcome"
       and ctx = "\<lparr>asCurrentUser = (), license = None :: unit option\<rparr>"
       and s = "\<lparr>world = 0::nat, logged = [], handlerCalls = 0\<rparr>"
       and error = "\<lparr>output' = Some \<lparr>statusCode = Some 404,
              payload = Some \<lparr>message = Some ''Annotation not found''\<rparr>\<rparr>\<rparr>"
       and w = 0]
  by simp

section \<open>Properties of the entity list filters\<close>

lemma useEntitiesListFilters_append:
  "useEntitiesListFilters k tys g p =
     severityFilter k tys p @ criticalityFilter p @ sourceFilter k p @
       (case g of None \<Rightarrow> [] | Some q \<Rightarrow> [q])"
  by (simp add: useEntitiesListFilters_def split: option.splits)

lemma mset_eq_Nil_iff: "mset xs = mset ys \<Longrightarrow> (xs = []) = (ys = [])"
  by (metis mset_zero_iff)

lemma unordered_severityFilter:
  assumes "mset (selectedSeverities p') = mset (selectedSeverities p)"
  shows "map unordered (severityFilter k tys p') = map unordered (severityFilter k tys p)"
  using assms mset_eq_Nil_iff[OF assms] by (simp add: severityFilter_def comp_def)

lemma unordered_criticalityFilter:
  assumes "mset (selectedCriticalities p') = mset (selectedCriticalities p)"
  shows "map unordered (criticalityFilter p') = map unordered (criticalityFilter p)"
proof -
  have "mset (map (unordered \<circ> Term ''asset.criticality'') (selectedCriticalities p')) =
        mset (map (unordered \<circ> Term ''asset.criticality'') (selectedCriticalities p))"
    using assms by (metis mset_map)
  then show ?thesis
    using mset_eq_Nil_iff[OF assms] by (simp add: criticalityFilter_def comp_def)
qed

lemma unordered_sourceFilter:
  assumes "mset (selectedSources p') = mset (selectedSources p)"
  shows "map unordered (sourceFilter k p') = map unordered (sourceFilter k p)"
proof -
  have "mset (map (unordered \<circ> getSourceTagFilterQuery k) (selectedSources p')) =
        mset (map (unordered \<circ> getSourceTagFilterQuery k) (selectedSources p))"
    using assms by (metis mset_map)
  then show ?thesis
    using mset_eq_Nil_iff[OF assms] by (simp add: sourceFilter_def comp_def)
qed

text \<open>
  C4. The list the hook returns is the groups of the three selections followed by the
  global query, when there is one. Every group is a \<open>bool/should\<close> clause; the severity,
  the criticality and the source selection each contribute exactly one group when
  non-empty and none when empty. Reordering the elements within the selections changes
  neither which groups appear nor what they hold, every array in them (the values of a
  \<open>terms\<close> clause included) being taken as the multiset of its elements.
\<close>

theorem one_should_group_per_selection:
  assumes "mset (selectedSeverities p') = mset (selectedSeverities p)"
    and "mset (selectedCriticalities p') = mset (selectedCriticalities p)"
    and "mset (selectedSources p') = mset (selectedSources p)"
  shows "useEntitiesListFilters k tys g p =
           useEntitiesListFilters k tys None p @ (case g of None \<Rightarrow> [] | Some q \<Rightarrow> [q]) \<and>
         list_all isShouldGroup (useEntitiesListFilters k tys None p) \<and>
         useEntitiesListFilters k tys None p =
           severityFilter k tys p @ criticalityFilter p @ sourceFilter k p \<and>
         length (severityFilter k tys p) = (if selectedSeverities p = [] then 0 else 1) \<and>
         length (criticalityFilter p) = (if selectedCriticalities p = [] then 0 else 1) \<and>
         length (sourceFilter k p) = (if selectedSources p = [] then 0 else 1) \<and>
         map unordered (useEntitiesListFilters k tys g p') =
           map unordered (useEntitiesListFilters k tys g p)"
proof -
  have "map unordered (useEntitiesListFilters k tys g p') =
        map unordered (useEntitiesListFilters k tys g p)"
    using unordered_severityFilter[OF assms(1), of k tys] unordered_criticalityFilter[OF assms(2)]
      unordered_sourceFilter[OF assms(3), of k]
    by (simp add: useEntitiesListFilters_append)
  moreover have "list_all isShouldGroup (useEntitiesListFilters k tys None p)"
    by (simp add: useEntitiesListFilters_append severityFilter_def criticalityFilter_def
        sourceFilter_def isShouldGroup_def)
  ultimately show ?thesis
    by (simp add: useEntitiesListFilters_append severityFilter_def criticalityFilter_def
        sourceFilter_def)
qed

theorem one_should_group_per_selection_witness:
  "mset [''Low'', ''High''] = mset [''High'', ''Low''] \<and>
   mset [other_tag ''events'', risk] = mset [risk, other_tag ''events''] \<and>
   length (useEntitiesListFilters
      \<lparr>EntityTypeToLevelField =
              (\<lambda>ty. if ty = ''host'' then ''host.risk.calculated_level''
                    else if ty = ''user'' then ''user.risk.calculated_level''
                    else ''unsupported''),
            unsupported = ''unsupported'',
            ASSET_CRITICALITY_INDEX_PATTERN = ''.asset-criticality.asset-criticality-*'',
            RISK_SCORE_INDEX_PATTERN = ''risk-score.risk-score-*''\<rparr>
      [''host'', ''user'', ''generic''] None
      \<lparr>selectedSeverities = [''High'', ''Low''], selectedCriticalities = [''high_impact''],
            selectedSources = [risk, other_tag ''events'']\<rparr>) = 3 \<and>
   map unordered (useEntitiesListFilters
      \<lparr>EntityTypeToLevelField =
              (\<lambda>ty. if ty = ''host'' then ''host.risk.calculated_level''
                    else if ty = ''user'' then ''user.risk.calculated_level''
                    else ''unsupported''),
            unsupported = ''unsupported'',
            ASSET_CRITICALITY_INDEX_PATTERN = ''.asset-criticality.asset-criticality-*'',
            RISK_SCORE_INDEX_PATTERN = ''risk-score.risk-score-*''\<rparr>
      [''host'', ''user'', ''generic''] (Some (OtherQuery ''global''))
      \<lparr>selectedSeverities = [''Low'', ''High''], selectedCriticalities = [''high_impact''],
            selectedSources = [other_tag ''events'', risk]\<rparr>) =
   map unordered (useEntitiesListFilters
      \<lparr>EntityTypeToLevelField =
              (\<lambda>ty. if ty = ''host'' then ''host.risk.calculated_level''
                    else if ty = ''user'' then ''user.risk.calculated_level''
                    else ''unsupported''),
            unsupported = ''unsupported'',
            ASSET_CRITICALITY_INDEX_PATTERN = ''.asset-criticality.asset-criticality-*'',
            RISK_SCORE_INDEX_PATTERN = ''risk-score.risk-score-*''\<rparr>
      [''host'', ''user'', ''generic''] (Some (OtherQuery ''global''))
      \<lparr>selectedSeverities = [''High'', ''Low''], selectedCriticalities = [''high_impact''],
            selectedSources = [risk, other_tag ''events'']\<rparr>)"
  using one_should_group_per_selection
    [where p' = "\<lparr>selectedSeverities = [''Low'', ''High''], selectedCriticalities = [''high_impact''],
            selectedSources = [other_tag ''events'', risk]\<rparr>"
       and p = "\<lparr>selectedSeverities = [''High'', ''Low''], selectedCriticalities = [''high_impact''],
            selectedSources = [risk, other_tag ''events'']\<rparr>"
       and k = "\<lparr>EntityTypeToLevelField =
              (\<lambda>ty. if ty = ''host'' then ''host.risk.calculated_level''
                    else if ty = ''user'' then ''user.risk.calculated_level''
                    else ''unsupported''),
            unsupported = ''unsupported'',
            ASSET_CRITICALITY_INDEX_PATTERN = ''.asset-criticality.asset-criticality-*'',
            RISK_SCORE_INDEX_PATTERN = ''risk-score.risk-score-*''\<rparr>"
       and tys = "[''host'', ''user'', ''generic'']"
       and g = "(Some (OtherQuery ''global''))"]
  by simp

text \<open>
  C5. With the three selections empty and no global filter query, the hook returns the
  empty list.
\<close>

theorem no_selection_no_filters:
  "useEntitiesListFilters k enabledEntityTypes None
     \<lparr>selectedSeverities = [], selectedCriticalities = [], selectedSources = []\<rparr> = []"
  by (simp add: useEntitiesListFilters_def severityFilter_def criticalityFilter_def
      sourceFilter_def)

theorem no_selection_no_filters_witness:
  "useEntitiesListFilters
     \<lparr>EntityTypeToLevelField = (\<lambda>ty. if ty = ''host'' then ''host.risk.calculated_level''
                                    else ''unsupported''),
      unsupported = ''unsupported'',
      ASSET_CRITICALITY_INDEX_PATTERN = ''.asset-criticality.asset-criticality-*'',
      RISK_SCORE_INDEX_PATTERN = ''risk-score.risk-score-*''\<rparr>
     [''host'', ''generic''] None
     \<lparr>selectedSeverities = [], selectedCriticalities = [], selectedSources = []\<rparr> = []"
  using no_selection_no_filters
    [where k = "\<lparr>EntityTypeToLevelField =
                    (\<lambda>ty. if ty = ''host'' then ''host.risk.calculated_level''
                          else ''unsupported''),
                  unsupported = ''unsupported'',
                  ASSET_CRITICALITY_INDEX_PATTERN = ''.asset-criticality.asset-criticality-*'',
                  RISK_SCORE_INDEX_PATTERN = ''risk-score.risk-score-*''\<rparr>"
       and enabledEntityTypes = "[''host'', ''generic'']"]
  by simp

text \<open>
  C10. With a non-empty severity selection, the list starts with the severity group, whose
  \<open>should\<close> list holds one \<open>terms\<close> clause for each enabled entity type whose level field
  is not \<open>RiskScoreFields.unsupported\<close>, on that field and with the selected severities
  as values. When every enabled type is unsupported the group is still there, with an empty
  \<open>should\<close> list, in which the selected severities no longer occur.
\<close>

theorem severity_group_clauses:
  assumes "selectedSeverities p \<noteq> []"
  shows "take 1 (useEntitiesListFilters k tys g p) =
           [BoolShould
              (map (\<lambda>ty. Terms (EntityTypeToLevelField k ty) (selectedSeverities p))
                 (filter (\<lambda>ty. EntityTypeToLevelField k ty \<noteq> unsupported k) tys))] \<and>
         ((\<forall>ty \<in> set tys. EntityTypeToLevelField k ty = unsupported k) \<longrightarrow>
            take 1 (useEntitiesListFilters k tys g p) = [BoolShould []])"
  using assms by (simp add: useEntitiesListFilters_append severityFilter_def filter_empty_conv)

theorem severity_group_clauses_witness:
  "take 1 (useEntitiesListFilters
      \<lparr>EntityTypeToLevelField =
              (\<lambda>ty. if ty = ''host'' then ''host.risk.calculated_level''
                    else if ty = ''user'' then ''user.risk.calculated_level''
                    else ''unsupported''),
            unsupported = ''unsupported'',
            ASSET_CRITICALITY_INDEX_PATTERN = ''.asset-criticality.asset-criticality-*'',
            RISK_SCORE_INDEX_PATTERN = ''risk-score.risk-score-*''\<rparr>
      [''host'', ''user'', ''generic''] (Some (OtherQuery ''global''))
      \<lparr>selectedSeverities = [''High'', ''Low''], selectedCriticalities = [''high_impact''],
            selectedSources = [risk, other_tag ''events'']\<rparr>) =
     [BoolShould [Terms ''host.risk.calculated_level'' [''High'', ''Low''],
                  Terms ''user.risk.calculated_level'' [''High'', ''Low'']]] \<and>
   take 1 (useEntitiesListFilters
      \<lparr>EntityTypeToLevelField =
              (\<lambda>ty. if ty = ''host'' then ''host.risk.calculated_level''
                    else if ty = ''user'' then ''user.risk.calculated_level''
                    else ''unsupported''),
            unsupported = ''unsupported'',
            ASSET_CRITICALITY_INDEX_PATTERN = ''.asset-criticality.asset-criticality-*'',
            RISK_SCORE_INDEX_PATTERN = ''risk-score.risk-score-*''\<rparr>
      [''generic''] (Some (OtherQuery ''global''))
      \<lparr>selectedSeverities = [''High''], selectedCriticalities = [],
            selectedSources = []\<rparr>) = [BoolShould []]"
  using severity_group_clauses
    [where p = "\<lparr>selectedSeverities = [''High'', ''Low''], selectedCriticalities = [''high_impact''],
            selectedSources = [risk, other_tag ''events'']\<rparr>"
       and k = "\<lparr>EntityTypeToLevelField =
              (\<lambda>ty. if ty = ''host'' then ''host.risk.calculated_level''
                    else if ty = ''user'' then ''user.risk.calculated_level''
                    else ''unsupported''),
            unsupported = ''unsupported'',
            ASSET_CRITICALITY_INDEX_PATTERN = ''.asset-criticality.asset-criticality-*'',
            RISK_SCORE_INDEX_PATTERN = ''risk-score.risk-score-*''\<rparr>"
       and tys = "[''host'', ''user'', ''generic'']"
       and g = "(Some (OtherQuery ''global''))"]
    severity_group_clauses
    [where p = "\<lparr>selectedSeverities = [''High''], selectedCriticalities = [],
            selectedSources = []\<rparr>"
       and k = "\<lparr>EntityTypeToLevelField =
              (\<lambda>ty. if ty = ''host'' then ''host.risk.calculated_level''
                    else if ty = ''user'' then ''user.risk.calculated_level''
                    else ''unsupported''),
            unsupported = ''unsupported'',
            ASSET_CRITICALITY_INDEX_PATTERN = ''.asset-criticality.asset-criticality-*'',
            RISK_SCORE_INDEX_PATTERN = ''risk-score.risk-score-*''\<rparr>"
       and tys = "[''generic'']"
       and g = "(Some (OtherQuery ''global''))"]
  by simp

section \<open>Properties of the expression editor\<close>

text \<open>
  C8, as the spec has it, fails for the empty selection: no call to \<open>getFields\<close> is made
  and \<open>esFields\<close> stays as it was, although the lookup would have answered.
\<close>

theorem empty_selection_no_lookup_counterexample:
  "fieldLookups (onIndexChange ''>''
      (\<lambda>indices. Some [\<lparr>name = ''@timestamp'', type = ''date'', normalizedType = ''date'',
                           searchable = True, aggregatable = True\<rparr>])
      []
      \<lparr>ruleParams =
         \<lparr>index = Some (IndexArray [''logs-*'']), timeField = Some ''@timestamp'',
          aggType = Some ''avg'', aggField = Some ''bytes'', groupBy = Some ''top'',
          termSize = Some 3, termField = Some ''host.name'', thresholdComparator = Some ''<'',
          threshold = Some [10], timeWindowSize = Some 1, timeWindowUnit = Some ''h'',
          filterKuery = Some ''status:500''\<rparr>,
       esFields = None, fieldLookups = []\<rparr>) = [] \<and>
   esFields (onIndexChange ''>''
      (\<lambda>indices. Some [\<lparr>name = ''@timestamp'', type = ''date'', normalizedType = ''date'',
                           searchable = True, aggregatable = True\<rparr>])
      []
      \<lparr>ruleParams =
         \<lparr>index = Some (IndexArray [''logs-*'']), timeField = Some ''@timestamp'',
          aggType = Some ''avg'', aggField = Some ''bytes'', groupBy = Some ''top'',
          termSize = Some 3, termField = Some ''host.name'', thresholdComparator = Some ''<'',
          threshold = Some [10], timeWindowSize = Some 1, timeWindowUnit = Some ''h'',
          filterKuery = Some ''status:500''\<rparr>,
       esFields = None, fieldLookups = []\<rparr>) = None"
  by (simp add: onIndexChange_def setRuleParams_index_def setRuleProperty_params_def)

text \<open>
  C8, amended. Every selection of a non-empty list of indices makes one call to
  \<open>getFields\<close> over the selected indices and, when the call answers, stores its result in
  \<open>esFields\<close>; when the call fails, \<open>esFields\<close> keeps its value.
\<close>

theorem index_selection_field_lookup:
  assumes "indices \<noteq> []"
  shows "fieldLookups (onIndexChange GREATER_THAN getFields indices s) =
           fieldLookups s @ [indices] \<and>
         esFields (onIndexChange GREATER_THAN getFields indices s) =
           (case getFields indices of
              Some currentEsFields \<Rightarrow> Some currentEsFields
            | None \<Rightarrow> esFields s)"
  using assms
  by (simp add: onIndexChange_def setRuleParams_index_def refreshEsFields_def Let_def
      split: option.splits)

theorem index_selection_field_lookup_witness:
  "fieldLookups (onIndexChange ''>''
      (\<lambda>indices. Some [\<lparr>name = ''@timestamp'', type = ''date'', normalizedType = ''date'',
                           searchable = True, aggregatable = True\<rparr>])
      [''logs-*'']
      \<lparr>ruleParams =
         \<lparr>index = None, timeField = None,
          aggType = Some ''count'', aggField = None, groupBy = Some ''all'',
          termSize = Some 5, termField = None, thresholdComparator = Some ''>'',
          threshold = Some [1000], timeWindowSize = Some 5, timeWindowUnit = Some ''m'',
          filterKuery = None\<rparr>,
       esFields = None, fieldLookups = []\<rparr>) = [[''logs-*'']] \<and>
   esFields (onIndexChange ''>''
      (\<lambda>indices. Some [\<lparr>name = ''@timestamp'', type = ''date'', normalizedType = ''date'',
                           searchable = True, aggregatable = True\<rparr>])
      [''logs-*'']
      \<lparr>ruleParams =
         \<lparr>index = None, timeField = None,
          aggType = Some ''count'', aggField = None, groupBy = Some ''all'',
          termSize = Some 5, termField = None, thresholdComparator = Some ''>'',
          threshold = Some [1000], timeWindowSize = Some 5, timeWindowUnit = Some ''m'',
          filterKuery = None\<rparr>,
       esFields = None, fieldLookups = []\<rparr>) =
     Some [\<lparr>name = ''@timestamp'', type = ''date'', normalizedType = ''date'',
            searchable = True, aggregatable = True\<rparr>]"
  using index_selection_field_lookup
    [where indices = "[''logs-*'']"
       and GREATER_THAN = "''>''"
       and getFields = "\<lambda>indices. Some [\<lparr>name = ''@timestamp'', type = ''date'',
                           normalizedType = ''date'', searchable = True, aggregatable = True\<rparr>]"
       and s = "\<lparr>ruleParams =
         \<lparr>index = None, timeField = None,
          aggType = Some ''count'', aggField = None, groupBy = Some ''all'',
          termSize = Some 5, termField = None, thresholdComparator = Some ''>'',
          threshold = Some [1000], timeWindowSize = Some 5, timeWindowUnit = Some ''m'',
          filterKuery = None\<rparr>,
       esFields = None, fieldLookups = []\<rparr>"]
  by simp

text \<open>
  C9, as the spec has it, fails on the parameter \<open>index\<close>, which is not among those it
  names and does not stay unchanged: it becomes the empty list that was selected.
\<close>

theorem empty_selection_changes_index_counterexample:
  "index (ruleParams (onIndexChange ''>''
      (\<lambda>indices. None)
      []
      \<lparr>ruleParams =
         \<lparr>index = Some (IndexArray [''logs-*'']), timeField = Some ''@timestamp'',
          aggType = Some ''avg'', aggField = Some ''bytes'', groupBy = Some ''top'',
          termSize = Some 3, termField = Some ''host.name'', thresholdComparator = Some ''<'',
          threshold = Some [10], timeWindowSize = Some 1, timeWindowUnit = Some ''h'',
          filterKuery = Some ''status:500''\<rparr>,
       esFields = None, fieldLookups = []\<rparr>)) = Some (IndexArray []) \<and>
   Some (IndexArray []) \<noteq> Some (IndexArray [''logs-*''])"
  by (simp add: onIndexChange_def setRuleParams_index_def setRuleProperty_params_def)

text \<open>
  C9, amended. On an empty selection the component makes no field lookup and leaves
  \<open>esFields\<close> alone; it sets \<open>index\<close> to the empty list, \<open>aggType\<close>, \<open>termSize\<close>,
  \<open>thresholdComparator\<close>, \<open>timeWindowSize\<close>, \<open>timeWindowUnit\<close>, \<open>groupBy\<close> and
  \<open>threshold\<close> to their \<open>DEFAULT_VALUES\<close> (\<open>count\<close>, 5, \<open>GREATER_THAN\<close>, 5, \<open>m\<close>,
  \<open>all\<close>, \<open>[1000]\<close>) and \<open>timeField\<close> to the empty string; every other rule parameter,
  \<open>filterKuery\<close>, \<open>aggField\<close> and \<open>termField\<close> among them, keeps its value.
\<close>

theorem empty_selection_resets_expression:
  "fieldLookups (onIndexChange GREATER_THAN getFields [] s) = fieldLookups s \<and>
   esFields (onIndexChange GREATER_THAN getFields [] s) = esFields s \<and>
   ruleParams (onIndexChange GREATER_THAN getFields [] s) =
     (ruleParams s)
       \<lparr>index := Some (IndexArray []),
        aggType := Some ''count'',
        termSize := Some 5,
        thresholdComparator := Some GREATER_THAN,
        timeWindowSize := Some 5,
        timeWindowUnit := Some ''m'',
        groupBy := Some ''all'',
        threshold := Some [1000],
        timeField := Some ''''\<rparr> \<and>
   aggField (ruleParams (onIndexChange GREATER_THAN getFields [] s)) = aggField (ruleParams s) \<and>
   termField (ruleParams (onIndexChange GREATER_THAN getFields [] s)) = termField (ruleParams s) \<and>
   filterKuery (ruleParams (onIndexChange GREATER_THAN getFields [] s)) =
     filterKuery (ruleParams s) \<and>
   IndexThresholdRuleParams.more (ruleParams (onIndexChange GREATER_THAN getFields [] s)) =
     IndexThresholdRuleParams.more (ruleParams s)"
  by (simp add: onIndexChange_def setRuleParams_index_def setRuleProperty_params_def
      DEFAULT_VALUES_def)

theorem empty_selection_resets_expression_witness:
  "ruleParams (onIndexChange ''>'' (\<lambda>indices. None) []
      \<lparr>ruleParams =
         \<lparr>index = Some (IndexArray [''logs-*'']), timeField = Some ''@timestamp'',
          aggType = Some ''avg'', aggField = Some ''bytes'', groupBy = Some ''top'',
          termSize = Some 3, termField = Some ''host.name'', thresholdComparator = Some ''<'',
          threshold = Some [10], timeWindowSize = Some 1, timeWindowUnit = Some ''h'',
          filterKuery = Some ''status:500''\<rparr>,
       esFields = None, fieldLookups = [[''logs-*'']]\<rparr>) =
     \<lparr>index = Some (IndexArray []), timeField = Some '''',
      aggType = Some ''count'', aggField = Some ''bytes'', groupBy = Some ''all'',
      termSize = Some 5, termField = Some ''host.name'', thresholdComparator = Some ''>'',
      threshold = Some [1000], timeWindowSize = Some 5, timeWindowUnit = Some ''m'',
      filterKuery = Some ''status:500''\<rparr> \<and>
   fieldLookups (onIndexChange ''>'' (\<lambda>indices. None) []
      \<lparr>ruleParams =
         \<lparr>index = Some (IndexArray [''logs-*'']), timeField = Some ''@timestamp'',
          aggType = Some ''avg'', aggField = Some ''bytes'', groupBy = Some ''top'',
          termSize = Some 3, termField = Some ''host.name'', thresholdComparator = Some ''<'',
          threshold = Some [10], timeWindowSize = Some 1, timeWindowUnit = Some ''h'',
          filterKuery = Some ''status:500''\<rparr>,
       esFields = None, fieldLookups = [[''logs-*'']]\<rparr>) = [[''logs-*'']]"
  using empty_selection_resets_expression
    [where GREATER_THAN = "''>''"
       and getFields = "\<lambda>indices. None"
       and s = "\<lparr>ruleParams =
         \<lparr>index = Some (IndexArray [''logs-*'']), timeField = Some ''@timestamp'',
          aggType = Some ''avg'', aggField = Some ''bytes'', groupBy = Some ''top'',
          termSize = Some 3, termField = Some ''host.name'', thresholdComparator = Some ''<'',
          threshold = Some [10], timeWindowSize = Some 1, timeWindowUnit = Some ''h'',
          filterKuery = Some ''status:500''\<rparr>,
       esFields = None, fieldLookups = [[''logs-*'']]\<rparr>"]
  by simp

end
